theory Spec2Isabelle
  imports Complex_Main
begin

section \<open>Python values\<close>

text \<open>
  The values the client stores and formats come out of JSON bodies: \<open>None\<close> (JSON null
  or a missing key read with \<open>dict.get\<close>), booleans, integers and strings. Python's
  truthiness (\<open>not x\<close>) and \<open>str\<close> formatting (as in an f-string) are total on them.
  Clock readings (\<open>time.time()\<close>) are rationals and arithmetic on them is exact.
\<close>

datatype pyval = PNone | PBool bool | PInt int | PStr string

type_synonym pydict = "string \<rightharpoonup> pyval"

datatype error =
    ClientResponseError int string
  | ValueError string
  | KeyError string
  | TypeError

fun truthy :: "pyval \<Rightarrow> bool" where
  "truthy PNone = False"
| "truthy (PBool b) = b"
| "truthy (PInt i) = (i \<noteq> 0)"
| "truthy (PStr s) = (s \<noteq> [])"

text \<open>\<open>str\<close> of an integer: its decimal digits (\<open>digit\<close> is only applied below 10).\<close>

definition digit :: "nat \<Rightarrow> char" where
  "digit d = ''0123456789'' ! d"

fun str_nat :: "nat \<Rightarrow> string" where
  "str_nat n = (if n < 10 then [digit n] else str_nat (n div 10) @ [digit (n mod 10)])"

definition str_int :: "int \<Rightarrow> string" where
  "str_int i = (if i < 0 then CHR ''-'' # str_nat (nat (- i)) else str_nat (nat i))"

fun py_str :: "pyval \<Rightarrow> string" where
  "py_str PNone = ''None''"
| "py_str (PBool b) = (if b then ''True'' else ''False'')"
| "py_str (PInt i) = str_int i"
| "py_str (PStr s) = s"

text \<open>\<open>d.get(k)\<close>: the value, or \<open>None\<close> when the key is missing.\<close>

definition dict_get :: "pydict \<Rightarrow> string \<Rightarrow> pyval" where
  "dict_get d k = (case d k of None \<Rightarrow> PNone | Some v \<Rightarrow> v)"

text \<open>\<open>x > v\<close> for a float \<open>x\<close>: numbers and booleans compare, anything else raises.\<close>

fun py_gt :: "rat \<Rightarrow> pyval \<Rightarrow> error + bool" where
  "py_gt x (PInt i) = Inr (x > of_int i)"
| "py_gt x (PBool b) = Inr (x > (if b then 1 else 0))"
| "py_gt x PNone = Inl TypeError"
| "py_gt x (PStr s) = Inl TypeError"

text \<open>\<open>s.lstrip("/")\<close>\<close>

definition lstrip_slash :: "string \<Rightarrow> string" where
  "lstrip_slash s = dropWhile (\<lambda>c. c = CHR ''/'') s"

section \<open>The HTTP session and the clock\<close>

text \<open>
  A keyword argument of a session call is a dict (\<open>headers\<close>, \<open>json\<close>) or a plain value.
  A call is the method, the URL and the keyword arguments handed to the session. A
  response is read through \<open>status\<close>, \<open>text()\<close> and \<open>json()\<close>; the parsed body is a dict of
  the values above, which is as deep as the client looks into it. The HTTP library's own
  failures (no connection, a body that is not JSON) are outside the model: every call is
  answered.
\<close>

datatype kwval = KDict pydict | KVal pyval

type_synonym kwargs = "string \<rightharpoonup> kwval"

record http_call =
  meth :: string
  url :: string
  kwargs :: kwargs

record response =
  resp_status :: int
  resp_text :: string
  resp_json :: pydict

text \<open>
  The world outside the client: the remote API, which answers a call knowing the calls
  made before it; the clock, as the sequence of its readings; the number of readings
  taken; and the calls sent so far, oldest first.
\<close>

record world =
  server :: "http_call list \<Rightarrow> http_call \<Rightarrow> response"
  clock :: "nat \<Rightarrow> rat"
  reads :: nat
  sent :: "http_call list"

definition send :: "world \<Rightarrow> http_call \<Rightarrow> response \<times> world" where
  "send w c = (server w (sent w) c, w\<lparr>sent := sent w @ [c]\<rparr>)"

definition time_time :: "world \<Rightarrow> rat \<times> world" where
  "time_time w = (clock w (reads w), w\<lparr>reads := Suc (reads w)\<rparr>)"

section \<open>AuthClient\<close>

text \<open>
  The fields \<open>self._x\<close> of the source are \<open>self_x\<close> here. An operation takes the world
  and the client and returns its result, \<open>Inl\<close> for a raised exception, together with
  the world and the client as it leaves them. The source's \<open>login\<close> and \<open>refresh_token\<close>
  store the same four fields the same way; \<open>store_tokens\<close> is those four assignments.
\<close>

record auth_client =
  self_base_url :: string
  self_access_token :: pyval
  self_refresh_token :: pyval
  self_access_token_expire :: pyval
  self_refresh_token_expire :: pyval

definition init :: "string \<Rightarrow> auth_client" where
  "init base_url = \<lparr>self_base_url = base_url, self_access_token = PNone,
     self_refresh_token = PNone, self_access_token_expire = PNone,
     self_refresh_token_expire = PNone\<rparr>"

definition store_tokens :: "auth_client \<Rightarrow> pydict \<Rightarrow> auth_client" where
  "store_tokens s data = s\<lparr>
     self_access_token := dict_get data ''accessToken'',
     self_refresh_token := dict_get data ''refreshToken'',
     self_access_token_expire := dict_get data ''accessTokenExpire'',
     self_refresh_token_expire := dict_get data ''refreshTokenExpire''\<rparr>"

definition bearer :: "auth_client \<Rightarrow> pydict" where
  "bearer s = [''Authorization'' \<mapsto> PStr (''Bearer '' @ py_str (self_access_token s))]"

definition login_call :: "auth_client \<Rightarrow> string \<Rightarrow> string \<Rightarrow> http_call" where
  "login_call s email password = \<lparr>meth = ''POST'',
     url = self_base_url s @ ''/auth/auth/login'',
     kwargs = [''json'' \<mapsto> KDict [''email'' \<mapsto> PStr email, ''password'' \<mapsto> PStr password]]\<rparr>"

definition login ::
  "world \<Rightarrow> auth_client \<Rightarrow> string \<Rightarrow> string \<Rightarrow> (error + pydict) \<times> world \<times> auth_client" where
  "login w s email password =
     (let (response, w') = send w (login_call s email password) in
      if resp_status response = 200 then
        (let data = resp_json response in (Inr data, w', store_tokens s data))
      else
        (Inl (ClientResponseError (resp_status response)
                (''Login failed: '' @ resp_text response)), w', s))"

definition is_access_token_expired :: "world \<Rightarrow> auth_client \<Rightarrow> (error + bool) \<times> world" where
  "is_access_token_expired w s =
     (if \<not> truthy (self_access_token_expire s) then (Inr True, w)
      else (let (now, w') = time_time w in (py_gt (now + 60) (self_access_token_expire s), w')))"

definition validate_call :: "auth_client \<Rightarrow> http_call" where
  "validate_call s = \<lparr>meth = ''GET'', url = self_base_url s @ ''/auth/validate/token'',
     kwargs = [''headers'' \<mapsto> KDict (bearer s)]\<rparr>"

definition is_current_token_valid :: "world \<Rightarrow> auth_client \<Rightarrow> (error + bool) \<times> world" where
  "is_current_token_valid w s =
     (if \<not> truthy (self_access_token s) then (Inr False, w)
      else (let (response, w') = send w (validate_call s) in
            (Inr (resp_status response = 200), w')))"

definition refresh_call :: "auth_client \<Rightarrow> http_call" where
  "refresh_call s = \<lparr>meth = ''POST'', url = self_base_url s @ ''/auth/auth/refresh'',
     kwargs = [''headers'' \<mapsto> KDict (bearer s),
               ''json'' \<mapsto> KDict [''refreshToken'' \<mapsto> self_refresh_token s]]\<rparr>"

definition refresh_token :: "world \<Rightarrow> auth_client \<Rightarrow> (error + unit) \<times> world \<times> auth_client" where
  "refresh_token w s =
     (if \<not> truthy (self_refresh_token s) then
        (Inl (ValueError ''No refresh token available. Please login first.''), w, s)
      else
        (let (response, w') = send w (refresh_call s) in
         if resp_status response = 200 then
           (Inr (), w', store_tokens s (resp_json response))
         else
           (Inl (ClientResponseError (resp_status response)
                   (''Token refresh failed: '' @ resp_text response)), w', s)))"

definition ensure_valid_access_token ::
  "world \<Rightarrow> auth_client \<Rightarrow> bool \<Rightarrow> (error + unit) \<times> world \<times> auth_client" where
  "ensure_valid_access_token w s check_server =
     (case is_access_token_expired w s of
        (Inl e, w1) \<Rightarrow> (Inl e, w1, s)
      | (Inr True, w1) \<Rightarrow> refresh_token w1 s
      | (Inr False, w1) \<Rightarrow>
          (if check_server then
             (case is_current_token_valid w1 s of
                (Inl e, w2) \<Rightarrow> (Inl e, w2, s)
              | (Inr valid, w2) \<Rightarrow>
                  if \<not> valid then refresh_token w2 s else (Inr (), w2, s))
           else (Inr (), w1, s)))"

text \<open>
  \<open>dict(kwargs.get('headers', {}))\<close>: a copy of the caller's dict, the empty dict when
  there is none; \<open>dict\<close> of a non-iterable raises \<open>TypeError\<close>, of the empty string
  gives the empty dict, of another string raises \<open>ValueError\<close>.
\<close>

definition headers_copy :: "kwargs \<Rightarrow> error + pydict" where
  "headers_copy kw =
     (case kw ''headers'' of
        None \<Rightarrow> Inr Map.empty
      | Some (KDict h) \<Rightarrow> Inr h
      | Some (KVal (PStr s)) \<Rightarrow>
          if s = [] then Inr Map.empty
          else Inl (ValueError ''dictionary update sequence element #0 has length 1; 2 is required'')
      | Some (KVal v) \<Rightarrow> Inl TypeError)"

definition request_call ::
  "auth_client \<Rightarrow> string \<Rightarrow> string \<Rightarrow> kwargs \<Rightarrow> pydict \<Rightarrow> http_call" where
  "request_call s method endpoint kw headers = \<lparr>meth = method,
     url = self_base_url s @ ''/'' @ lstrip_slash endpoint,
     kwargs = kw(''headers'' \<mapsto>
       KDict (headers(''Authorization'' \<mapsto> PStr (''Bearer '' @ py_str (self_access_token s)))))\<rparr>"

definition request ::
  "world \<Rightarrow> auth_client \<Rightarrow> string \<Rightarrow> string \<Rightarrow> kwargs \<Rightarrow> (error + pydict) \<times> world \<times> auth_client" where
  "request w s method endpoint kw =
     (case ensure_valid_access_token w s False of
        (Inl e, w1, s1) \<Rightarrow> (Inl e, w1, s1)
      | (Inr _, w1, s1) \<Rightarrow>
          (case headers_copy kw of
             Inl e \<Rightarrow> (Inl e, w1, s1)
           | Inr headers \<Rightarrow>
               (let (response, w2) = send w1 (request_call s1 method endpoint kw headers) in
                if resp_status response = 200 then (Inr (resp_json response), w2, s1)
                else
                  (Inl (ClientResponseError (resp_status response)
                     (''Failed to execute request '' @ str_int (resp_status response)
                        @ '' - '' @ resp_text response)), w2, s1))))"

definition get_user_id :: "world \<Rightarrow> auth_client \<Rightarrow> (error + pyval) \<times> world \<times> auth_client" where
  "get_user_id w s =
     (case request w s ''GET'' ''/auth/auth/user'' Map.empty of
        (Inl e, w', s') \<Rightarrow> (Inl e, w', s')
      | (Inr user, w', s') \<Rightarrow>
          (case user ''userId'' of
             None \<Rightarrow> (Inl (KeyError ''userId''), w', s')
           | Some v \<Rightarrow> (Inr v, w', s')))"

section \<open>UserClient\<close>

text \<open>
  The resource clients hold a reference to one shared \<open>AuthClient\<close>; its state is
  passed in and handed back by every operation, next to the client's own fields.
\<close>

record user_client =
  self_user_id :: pyval

definition user_client_init :: user_client where
  "user_client_init = \<lparr>self_user_id = PNone\<rparr>"

definition bypass_segment :: "bool \<Rightarrow> string" where
  "bypass_segment bypass = str_int (if bypass then 1 else 0)"

definition user_endpoint :: "pyval \<Rightarrow> string \<Rightarrow> bool \<Rightarrow> string" where
  "user_endpoint uid data_type bypass =
     ''service/users/user/'' @ py_str uid @ ''/'' @ data_type @ ''/'' @ bypass_segment bypass"

definition get_user_data ::
  "world \<Rightarrow> auth_client \<Rightarrow> user_client \<Rightarrow> string \<Rightarrow> bool
     \<Rightarrow> (error + pydict) \<times> world \<times> auth_client \<times> user_client" where
  "get_user_data w s u data_type bypass =
     (if \<not> truthy (self_user_id u) then
        (case get_user_id w s of
           (Inl e, w1, s1) \<Rightarrow> (Inl e, w1, s1, u)
         | (Inr uid, w1, s1) \<Rightarrow>
             (let u1 = u\<lparr>self_user_id := uid\<rparr>;
                  (r, w2, s2) = request w1 s1 ''GET'' (user_endpoint (self_user_id u1) data_type bypass) Map.empty
              in (r, w2, s2, u1)))
      else
        (let (r, w2, s2) = request w s ''GET'' (user_endpoint (self_user_id u) data_type bypass) Map.empty
         in (r, w2, s2, u)))"

definition get_structure ::
  "world \<Rightarrow> auth_client \<Rightarrow> user_client \<Rightarrow> bool \<Rightarrow> (error + pydict) \<times> world \<times> auth_client \<times> user_client" where
  "get_structure w s u bypass = get_user_data w s u ''structure'' bypass"

definition get_information ::
  "world \<Rightarrow> auth_client \<Rightarrow> user_client \<Rightarrow> bool \<Rightarrow> (error + pydict) \<times> world \<times> auth_client \<times> user_client" where
  "get_information w s u bypass = get_user_data w s u ''information'' bypass"

section \<open>CubicClient\<close>

record cubic_client =
  cubic_serial_number :: string

definition get_measurement ::
  "world \<Rightarrow> auth_client \<Rightarrow> cubic_client \<Rightarrow> bool \<Rightarrow> (error + pydict) \<times> world \<times> auth_client" where
  "get_measurement w s c bypass =
     request w s ''GET''
       (''service/cubic/secure/'' @ cubic_serial_number c @ ''/measurement/'' @ bypass_segment bypass)
       Map.empty"

definition get_configuration ::
  "world \<Rightarrow> auth_client \<Rightarrow> cubic_client \<Rightarrow> bool \<Rightarrow> (error + pydict) \<times> world \<times> auth_client" where
  "get_configuration w s c bypass =
     request w s ''GET''
       (''service/cubic/secure/'' @ cubic_serial_number c @ ''/configuration/'' @ bypass_segment bypass)
       Map.empty"

section \<open>CubicAccessClient\<close>

record cubic_access_client =
  access_serial_number :: string

definition get_valve ::
  "world \<Rightarrow> auth_client \<Rightarrow> cubic_access_client \<Rightarrow> (error + pydict) \<times> world \<times> auth_client" where
  "get_valve w s c =
     request w s ''GET'' (''control/cubic/secure/'' @ access_serial_number c @ ''/valve'') Map.empty"

definition set_valve_state ::
  "world \<Rightarrow> auth_client \<Rightarrow> cubic_access_client \<Rightarrow> bool \<Rightarrow> (error + pydict) \<times> world \<times> auth_client" where
  "set_valve_state w s c state =
     request w s ''POST''
       (''control/cubic/secure/'' @ access_serial_number c @ ''/valve/''
          @ (if state then ''open'' else ''close''))
       Map.empty"

definition open_valve ::
  "world \<Rightarrow> auth_client \<Rightarrow> cubic_access_client \<Rightarrow> (error + pydict) \<times> world \<times> auth_client" where
  "open_valve w s c = set_valve_state w s c True"

definition close_valve ::
  "world \<Rightarrow> auth_client \<Rightarrow> cubic_access_client \<Rightarrow> (error + pydict) \<times> world \<times> auth_client" where
  "close_valve w s c = set_valve_state w s c False"

section \<open>Observing a run\<close>

text \<open>The calls sent between an earlier world and a later one.\<close>

definition issued :: "world \<Rightarrow> world \<Rightarrow> http_call list" where
  "issued w w' = drop (length (sent w)) (sent w')"

text \<open>The headers a call carries, and its \<open>Authorization\<close> header.\<close>

definition headers_of :: "http_call \<Rightarrow> pydict" where
  "headers_of c = (case kwargs c ''headers'' of Some (KDict h) \<Rightarrow> h | _ \<Rightarrow> Map.empty)"

definition authorization :: "http_call \<Rightarrow> pyval option" where
  "authorization c = headers_of c ''Authorization''"

definition is_user_lookup :: "auth_client \<Rightarrow> http_call \<Rightarrow> bool" where
  "is_user_lookup s c = (meth c = ''GET'' \<and> url c = self_base_url s @ ''/auth/auth/user'')"

section \<open>Example worlds\<close>

definition demo_base :: string where
  "demo_base = ''https://link2.lk.nu''"

definition token_body :: "string \<Rightarrow> int \<Rightarrow> pydict" where
  "token_body tok expire = [''accessToken'' \<mapsto> PStr tok, ''refreshToken'' \<mapsto> PStr ''r1'',
     ''accessTokenExpire'' \<mapsto> PInt expire, ''refreshTokenExpire'' \<mapsto> PInt 90000]"

text \<open>
  A server that accepts every login and refresh, names the user \<open>uid\<close>, and answers
  any other call with an empty object; and one that refuses every call.
\<close>

definition demo_server :: "pyval \<Rightarrow> http_call list \<Rightarrow> http_call \<Rightarrow> response" where
  "demo_server uid calls c =
     (if url c = demo_base @ ''/auth/auth/login'' then
        \<lparr>resp_status = 200, resp_text = ''tokens'', resp_json = token_body ''t1'' 5000\<rparr>
      else if url c = demo_base @ ''/auth/auth/refresh'' then
        \<lparr>resp_status = 200, resp_text = ''tokens'', resp_json = token_body ''t2'' 9000\<rparr>
      else if url c = demo_base @ ''/auth/auth/user'' then
        \<lparr>resp_status = 200, resp_text = ''user'', resp_json = [''userId'' \<mapsto> uid]\<rparr>
      else \<lparr>resp_status = 200, resp_text = ''{}'', resp_json = Map.empty\<rparr>)"

definition deny_server :: "http_call list \<Rightarrow> http_call \<Rightarrow> response" where
  "deny_server calls c = \<lparr>resp_status = 401, resp_text = ''denied'', resp_json = Map.empty\<rparr>"

definition demo_world :: "(http_call list \<Rightarrow> http_call \<Rightarrow> response) \<Rightarrow> rat \<Rightarrow> world" where
  "demo_world srv t = \<lparr>server = srv, clock = (\<lambda>n. t), reads = 0, sent = []\<rparr>"

text \<open>The client after a login at the accepting server: token \<open>t1\<close>, expiring at 5000.\<close>

definition logged_in :: auth_client where
  "logged_in = store_tokens (init demo_base) (token_body ''t1'' 5000)"


text \<open>Resource clients for the device \<open>SN1\<close>.\<close>

definition demo_valve :: cubic_access_client where
  "demo_valve = \<lparr>access_serial_number = ''SN1''\<rparr>"

definition demo_cubic :: cubic_client where
  "demo_cubic = \<lparr>cubic_serial_number = ''SN1''\<rparr>"

text \<open>
  Two calls of \<open>get_structure\<close> in a row on a fresh \<open>UserClient\<close>, at a server that
  names the user \<open>uid\<close>; and two calls of \<open>get_measurement\<close> in a row.
\<close>

definition first_fetch ::
  "pyval \<Rightarrow> (error + pydict) \<times> world \<times> auth_client \<times> user_client" where
  "first_fetch uid = get_structure (demo_world (demo_server uid) 1000) logged_in user_client_init False"

definition second_fetch ::
  "pyval \<Rightarrow> (error + pydict) \<times> world \<times> auth_client \<times> user_client" where
  "second_fetch uid =
     get_structure (fst (snd (first_fetch uid))) (fst (snd (snd (first_fetch uid))))
       (snd (snd (snd (first_fetch uid)))) True"

definition measured_once :: "(error + pydict) \<times> world \<times> auth_client" where
  "measured_once = get_measurement (demo_world (demo_server PNone) 1000) logged_in demo_cubic True"

definition measured_twice :: "(error + pydict) \<times> world \<times> auth_client" where
  "measured_twice = get_measurement (fst (snd measured_once)) (snd (snd measured_once)) demo_cubic True"

section \<open>Auxiliary facts\<close>

lemmas demo_defs = demo_world_def demo_server_def deny_server_def demo_base_def
  logged_in_def token_body_def init_def store_tokens_def dict_get_def

lemma expired_world:
  "is_access_token_expired w s = (r, w1) \<Longrightarrow> sent w1 = sent w \<and> server w1 = server w \<and> clock w1 = clock w"
  by (auto simp: is_access_token_expired_def time_time_def split: if_splits)

lemma store_tokens_base [simp]: "self_base_url (store_tokens s d) = self_base_url s"
  by (simp add: store_tokens_def)

lemma store_tokens_access [simp]: "self_access_token (store_tokens s d) = dict_get d ''accessToken''"
  by (simp add: store_tokens_def)

lemma refresh_token_cases:
  assumes "refresh_token w s = (r, w', s')"
  shows "(\<not> truthy (self_refresh_token s) \<and> w' = w \<and> s' = s
            \<and> r = Inl (ValueError ''No refresh token available. Please login first.''))
       \<or> (truthy (self_refresh_token s) \<and> w' = w\<lparr>sent := sent w @ [refresh_call s]\<rparr>
            \<and> resp_status (server w (sent w) (refresh_call s)) = 200
            \<and> r = Inr () \<and> s' = store_tokens s (resp_json (server w (sent w) (refresh_call s))))
       \<or> (truthy (self_refresh_token s) \<and> w' = w\<lparr>sent := sent w @ [refresh_call s]\<rparr>
            \<and> resp_status (server w (sent w) (refresh_call s)) \<noteq> 200
            \<and> r = Inl (ClientResponseError (resp_status (server w (sent w) (refresh_call s)))
                   (''Token refresh failed: '' @ resp_text (server w (sent w) (refresh_call s))))
            \<and> s' = s)"
  using assms by (auto simp: refresh_token_def send_def split: if_splits)

lemma ensure_cases:
  "ensure_valid_access_token w s False =
     (case is_access_token_expired w s of
        (Inl e, w1) \<Rightarrow> (Inl e, w1, s)
      | (Inr True, w1) \<Rightarrow> refresh_token w1 s
      | (Inr False, w1) \<Rightarrow> (Inr (), w1, s))"
  by (simp add: ensure_valid_access_token_def split: prod.splits sum.splits bool.splits)

lemma request_after_ensure:
  assumes "request w s method endpoint kw = (res, w', s')"
      and "ensure_valid_access_token w s False = (r1, w1, s1)"
  shows "s' = s1 \<and>
         (case r1 of
            Inl e \<Rightarrow> res = Inl e \<and> w' = w1
          | Inr _ \<Rightarrow>
             (case headers_copy kw of
                Inl e \<Rightarrow> res = Inl e \<and> w' = w1
              | Inr h \<Rightarrow> w' = w1\<lparr>sent := sent w1 @ [request_call s1 method endpoint kw h]\<rparr>
                  \<and> res = (let response = server w1 (sent w1) (request_call s1 method endpoint kw h) in
                     if resp_status response = 200 then Inr (resp_json response)
                     else Inl (ClientResponseError (resp_status response)
                       (''Failed to execute request '' @ str_int (resp_status response)
                          @ '' - '' @ resp_text response)))))"
  using assms by (auto simp: request_def send_def Let_def split: sum.splits if_splits)

lemma ensure_trace:
  assumes "ensure_valid_access_token w s False = (r1, w1, s1)"
  shows "server w1 = server w \<and> clock w1 = clock w \<and> self_base_url s1 = self_base_url s
       \<and> ((sent w1 = sent w \<and> s1 = s) \<or> sent w1 = sent w @ [refresh_call s])"
  using assms
  by (auto simp: ensure_cases split: prod.splits sum.splits bool.splits
      dest!: refresh_token_cases expired_world)

lemma issued_self [simp]: "issued w w = []"
  by (simp add: issued_def)

lemma issued_append: "sent w' = sent w @ cs \<Longrightarrow> issued w w' = cs"
  by (simp add: issued_def)

lemma authorization_request_call [simp]:
  "authorization (request_call s method endpoint kw h)
     = Some (PStr (''Bearer '' @ py_str (self_access_token s)))"
  by (simp add: authorization_def headers_of_def request_call_def)

lemma request_shape:
  assumes "request w s method endpoint kw = (res, w', s')"
  shows "\<exists>pre post. sent w' = sent w @ pre @ post
           \<and> (pre = [] \<or> pre = [refresh_call s])
           \<and> (post = [] \<or> (\<exists>h. headers_copy kw = Inr h \<and> post = [request_call s' method endpoint kw h]))
           \<and> ((\<exists>r. res = Inr r) \<longrightarrow> post \<noteq> [])
           \<and> self_base_url s' = self_base_url s \<and> server w' = server w \<and> clock w' = clock w"
proof -
  obtain r1 w1 s1 where ens: "ensure_valid_access_token w s False = (r1, w1, s1)"
    by (metis prod_cases3)
  note after = request_after_ensure [OF assms ens]
  note tr = ensure_trace [OF ens]
  from tr have pre: "\<exists>pre. sent w1 = sent w @ pre \<and> (pre = [] \<or> pre = [refresh_call s])"
    by auto
  then obtain pre where pre: "sent w1 = sent w @ pre" "pre = [] \<or> pre = [refresh_call s]"
    by blast
  show ?thesis
  proof (cases r1)
    case (Inl e)
    with after tr pre show ?thesis
      by (intro exI [of _ pre] exI [of _ "[]"]) auto
  next
    case (Inr x)
    show ?thesis
    proof (cases "headers_copy kw")
      case (Inl e)
      with after tr pre Inr show ?thesis
        by (intro exI [of _ pre] exI [of _ "[]"]) auto
    next
      case (Inr h)
      with after tr pre \<open>r1 = Inr x\<close> show ?thesis
        by (intro exI [of _ pre] exI [of _ "[request_call s' method endpoint kw h]"]) auto
    qed
  qed
qed

lemma lookup_refresh_call [simp]:
  "is_user_lookup s (refresh_call s0) = False"
  by (simp add: is_user_lookup_def refresh_call_def)

lemma lookup_request_call:
  "self_base_url s' = self_base_url s \<Longrightarrow>
   is_user_lookup s (request_call s' method endpoint kw h)
     = (method = ''GET'' \<and> lstrip_slash endpoint = ''auth/auth/user'')"
  by (simp add: is_user_lookup_def request_call_def)

lemma lstrip_user_endpoint [simp]:
  "lstrip_slash (user_endpoint uid data_type bypass) = user_endpoint uid data_type bypass"
  by (simp add: lstrip_slash_def user_endpoint_def)

lemma user_endpoint_not_lookup [simp]:
  "user_endpoint uid data_type bypass \<noteq> ''auth/auth/user''"
  by (simp add: user_endpoint_def)

lemma bypass_segment_eq: "bypass_segment bypass = (if bypass then ''1'' else ''0'')"
  by (simp add: bypass_segment_def str_int_def digit_def)


lemma lstrip_lookup [simp]: "lstrip_slash ''/auth/auth/user'' = ''auth/auth/user''"
  by (simp add: lstrip_slash_def)

lemma get_user_id_shape:
  assumes "get_user_id w s = (r, w1, s1)"
  shows "\<exists>pre post. sent w1 = sent w @ pre @ post
           \<and> filter (is_user_lookup s) pre = []
           \<and> (post = [] \<or> (\<exists>c. post = [c] \<and> is_user_lookup s c))
           \<and> ((\<exists>v. r = Inr v) \<longrightarrow> post \<noteq> [])
           \<and> self_base_url s1 = self_base_url s \<and> server w1 = server w"
proof -
  obtain r0 w0 s0 where req: "request w s ''GET'' ''/auth/auth/user'' Map.empty = (r0, w0, s0)"
    by (metis prod_cases3)
  from assms req have same: "w1 = w0" "s1 = s0" "(\<exists>v. r = Inr v) \<longrightarrow> (\<exists>v. r0 = Inr v)"
    by (auto simp: get_user_id_def split: sum.splits option.splits)
  from request_shape [OF req] obtain pre post where
    sh: "sent w0 = sent w @ pre @ post" "pre = [] \<or> pre = [refresh_call s]"
      "post = [] \<or> (\<exists>h. post = [request_call s0 ''GET'' ''/auth/auth/user'' Map.empty h])"
      "(\<exists>v. r0 = Inr v) \<longrightarrow> post \<noteq> []"
      "self_base_url s0 = self_base_url s" "server w0 = server w"
    by blast
  from sh(2) have "filter (is_user_lookup s) pre = []"
    by auto
  moreover from sh(3,5) have "post = [] \<or> (\<exists>c. post = [c] \<and> is_user_lookup s c)"
    by (auto simp: lookup_request_call)
  ultimately show ?thesis
    using sh same by blast
qed

lemma data_request_shape:
  assumes "request w s ''GET'' (user_endpoint uid data_type bypass) Map.empty = (r, w', s')"
      and "self_base_url s = self_base_url s0"
  shows "\<exists>cs. sent w' = sent w @ cs \<and> filter (is_user_lookup s0) cs = []
           \<and> ((\<exists>v. r = Inr v) \<longrightarrow> cs \<noteq> [] \<and> meth (last cs) = ''GET''
                 \<and> url (last cs) = self_base_url s0 @ ''/'' @ user_endpoint uid data_type bypass)"
proof -
  from request_shape [OF assms(1)] obtain pre post where
    sh: "sent w' = sent w @ pre @ post" "pre = [] \<or> pre = [refresh_call s]"
      "post = [] \<or> (\<exists>h. post = [request_call s' ''GET'' (user_endpoint uid data_type bypass) Map.empty h])"
      "(\<exists>v. r = Inr v) \<longrightarrow> post \<noteq> []"
      "self_base_url s' = self_base_url s"
    by blast
  from sh(2) have a: "filter (is_user_lookup s0) pre = []"
    by auto
  from sh(3,5) assms(2) have b: "filter (is_user_lookup s0) post = []"
    by (auto simp: lookup_request_call)
  from sh(3,4,5) assms(2) have c: "(\<exists>v. r = Inr v) \<longrightarrow> (pre @ post) \<noteq> [] \<and> meth (last (pre @ post)) = ''GET''
      \<and> url (last (pre @ post)) = self_base_url s0 @ ''/'' @ user_endpoint uid data_type bypass"
    by (auto simp: request_call_def)
  from sh(1) a b c show ?thesis
    by (intro exI [of _ "pre @ post"]) simp
qed

lemmas run_defs = get_structure_def get_user_data_def get_user_id_def request_def
  ensure_valid_access_token_def is_access_token_expired_def time_time_def send_def
  headers_copy_def request_call_def lstrip_slash_def user_endpoint_def bypass_segment_def
  str_int_def digit_def user_client_init_def

lemma first_fetch_value:
  "first_fetch uid =
     (Inr Map.empty,
      \<lparr>server = demo_server uid, clock = (\<lambda>n. 1000), reads = 2,
        sent = [request_call logged_in ''GET'' ''/auth/auth/user'' Map.empty Map.empty,
                request_call logged_in ''GET'' (user_endpoint uid ''structure'' False) Map.empty Map.empty]\<rparr>,
      logged_in, \<lparr>self_user_id = uid\<rparr>)"
  apply (simp add: first_fetch_def run_defs demo_defs)
  done

lemma second_fetch_cached:
  "second_fetch (PStr ''u42'') =
     (Inr Map.empty,
      \<lparr>server = demo_server (PStr ''u42''), clock = (\<lambda>n. 1000), reads = 3,
        sent = [request_call logged_in ''GET'' ''/auth/auth/user'' Map.empty Map.empty,
                request_call logged_in ''GET'' (user_endpoint (PStr ''u42'') ''structure'' False) Map.empty Map.empty,
                request_call logged_in ''GET'' (user_endpoint (PStr ''u42'') ''structure'' True) Map.empty Map.empty]\<rparr>,
      logged_in, \<lparr>self_user_id = PStr ''u42''\<rparr>)"
  by (simp add: second_fetch_def first_fetch_value) (simp add: run_defs demo_defs)

lemma second_fetch_blank:
  "second_fetch (PStr []) =
     (Inr Map.empty,
      \<lparr>server = demo_server (PStr []), clock = (\<lambda>n. 1000), reads = 4,
        sent = [request_call logged_in ''GET'' ''/auth/auth/user'' Map.empty Map.empty,
                request_call logged_in ''GET'' (user_endpoint (PStr []) ''structure'' False) Map.empty Map.empty,
                request_call logged_in ''GET'' ''/auth/auth/user'' Map.empty Map.empty,
                request_call logged_in ''GET'' (user_endpoint (PStr []) ''structure'' True) Map.empty Map.empty]\<rparr>,
      logged_in, \<lparr>self_user_id = PStr []\<rparr>)"
  by (simp add: second_fetch_def first_fetch_value) (simp add: run_defs demo_defs)

lemma request_last_call:
  assumes "request w s method endpoint kw = (res, w', s')"
      and "fst (ensure_valid_access_token w s False) = Inr ()"
      and "headers_copy kw = Inr h"
  shows "issued w w' \<noteq> [] \<and> last (issued w w') = request_call s' method endpoint kw h
       \<and> set (issued w w') \<subseteq> {refresh_call s, request_call s' method endpoint kw h}
       \<and> self_base_url s' = self_base_url s"
proof -
  obtain r1 w1 s1 where ens: "ensure_valid_access_token w s False = (r1, w1, s1)"
    by (metis prod_cases3)
  with assms(2) have r1: "r1 = Inr ()"
    by simp
  from request_after_ensure [OF assms(1) ens] r1 assms(3)
  have after: "s' = s1" "w' = w1\<lparr>sent := sent w1 @ [request_call s1 method endpoint kw h]\<rparr>"
    by simp_all
  from ensure_trace [OF ens] obtain pre where
    pre: "sent w1 = sent w @ pre" "pre = [] \<or> pre = [refresh_call s]" "self_base_url s1 = self_base_url s"
    by auto
  from after pre(1) have "issued w w' = pre @ [request_call s' method endpoint kw h]"
    by (simp add: issued_append)
  with pre after show ?thesis
    by auto
qed


lemma headers_copy_empty [simp]: "headers_copy Map.empty = Inr Map.empty"
  by (simp add: headers_copy_def)

lemma demo_token_valid:
  "ensure_valid_access_token (demo_world srv 1000) logged_in False
     = (Inr (), (demo_world srv 1000)\<lparr>reads := 1\<rparr>, logged_in)"
  by (simp add: ensure_valid_access_token_def is_access_token_expired_def time_time_def demo_defs)

lemma request_last_call_fields:
  assumes "request w s method endpoint kw = (res, w', s')"
      and "fst (ensure_valid_access_token w s False) = Inr ()"
      and "headers_copy kw = Inr h"
  shows "issued w w' \<noteq> [] \<and> meth (last (issued w w')) = method
       \<and> url (last (issued w w')) = self_base_url s @ ''/'' @ lstrip_slash endpoint
       \<and> authorization (last (issued w w')) = Some (PStr (''Bearer '' @ py_str (self_access_token s')))
       \<and> set (issued w w') \<subseteq> {refresh_call s, last (issued w w')}"
proof -
  from request_last_call [OF assms]
  have a: "issued w w' \<noteq> []" "last (issued w w') = request_call s' method endpoint kw h"
    "set (issued w w') \<subseteq> {refresh_call s, request_call s' method endpoint kw h}"
    "self_base_url s' = self_base_url s"
    by simp_all
  from a(4) have "url (request_call s' method endpoint kw h) = self_base_url s @ ''/'' @ lstrip_slash endpoint"
    and "meth (request_call s' method endpoint kw h) = method"
    by (simp_all add: request_call_def)
  with a show ?thesis
    by simp
qed

lemma measured_once_value:
  "measured_once =
     (Inr Map.empty,
      \<lparr>server = demo_server PNone, clock = (\<lambda>n. 1000), reads = 1,
        sent = [request_call logged_in ''GET'' ''service/cubic/secure/SN1/measurement/1'' Map.empty Map.empty]\<rparr>,
      logged_in)"
  by (simp add: measured_once_def get_measurement_def demo_cubic_def run_defs demo_defs)

section \<open>Properties\<close>






text \<open>
  C3. With no refresh token stored, \<open>refresh_token\<close> raises \<open>ValueError\<close>, sends no call
  and leaves the world and the client, so the token pair, as they were.
\<close>

theorem refresh_token_before_login:
  assumes "self_refresh_token s = PNone"
  shows "refresh_token w s
           = (Inl (ValueError ''No refresh token available. Please login first.''), w, s)
         \<and> issued w (fst (snd (refresh_token w s))) = []"
  using assms by (simp add: refresh_token_def issued_def)

theorem refresh_token_before_login_witness:
  "self_refresh_token (init demo_base) = PNone
   \<and> refresh_token (demo_world (demo_server PNone) 1000) (init demo_base)
       = (Inl (ValueError ''No refresh token available. Please login first.''),
          demo_world (demo_server PNone) 1000, init demo_base)"
  using refresh_token_before_login [of "init demo_base" "demo_world (demo_server PNone) 1000"]
  by (simp add: init_def)

text \<open>
  C4. \<open>login\<close> sends one call. On status 200 it stores the four token fields read from
  the parsed body and returns that body; on any other status it raises
  \<open>ClientResponseError\<close> with that status and the body text in its message, and the
  client is unchanged.
\<close>

theorem login_stores_or_raises:
  assumes "response = server w (sent w) (login_call s email password)"
  shows "(resp_status response = 200 \<longrightarrow>
            login w s email password =
              (Inr (resp_json response), w\<lparr>sent := sent w @ [login_call s email password]\<rparr>,
               s\<lparr>self_access_token := dict_get (resp_json response) ''accessToken'',
                 self_refresh_token := dict_get (resp_json response) ''refreshToken'',
                 self_access_token_expire := dict_get (resp_json response) ''accessTokenExpire'',
                 self_refresh_token_expire := dict_get (resp_json response) ''refreshTokenExpire''\<rparr>))
       \<and> (resp_status response \<noteq> 200 \<longrightarrow>
            login w s email password =
              (Inl (ClientResponseError (resp_status response)
                      (''Login failed: '' @ resp_text response)),
               w\<lparr>sent := sent w @ [login_call s email password]\<rparr>, s))"
  using assms by (simp add: login_def send_def Let_def store_tokens_def)

theorem login_stores_or_raises_witness:
  "fst (login (demo_world (demo_server PNone) 1000) (init demo_base) ''a@b.se'' ''pw'')
      = Inr (token_body ''t1'' 5000)
   \<and> self_access_token (snd (snd (login (demo_world (demo_server PNone) 1000) (init demo_base) ''a@b.se'' ''pw''))) = PStr ''t1''
   \<and> self_access_token_expire (snd (snd (login (demo_world (demo_server PNone) 1000) (init demo_base) ''a@b.se'' ''pw''))) = PInt 5000
   \<and> login (demo_world deny_server 1000) (init demo_base) ''a@b.se'' ''pw''
      = (Inl (ClientResponseError 401 ''Login failed: denied''),
         (demo_world deny_server 1000)\<lparr>sent := [login_call (init demo_base) ''a@b.se'' ''pw'']\<rparr>,
         init demo_base)"
  using login_stores_or_raises [OF refl, of "demo_world (demo_server PNone) 1000" "init demo_base" "''a@b.se''" "''pw''"]
    login_stores_or_raises [OF refl, of "demo_world deny_server 1000" "init demo_base" "''a@b.se''" "''pw''"]
  by (simp add: demo_defs login_call_def)

text \<open>
  C5. A \<open>login\<close> or \<open>refresh_token\<close> that raises leaves all four token fields as they
  were; one that returns has replaced all four from the response body.
\<close>

theorem login_refresh_atomic:
  "(login w s email password = (Inl e, w', s') \<longrightarrow> s' = s)
   \<and> (login w s email password = (Inr data, w', s') \<longrightarrow> s' = store_tokens s data)
   \<and> (refresh_token w s = (Inl e, w', s') \<longrightarrow> s' = s)
   \<and> (refresh_token w s = (Inr x, w', s') \<longrightarrow>
         s' = store_tokens s (resp_json (server w (sent w) (refresh_call s))))"
  by (auto simp: login_def refresh_token_def send_def Let_def split: if_splits)

theorem login_refresh_atomic_witness:
  "snd (snd (login (demo_world deny_server 1000) logged_in ''a@b.se'' ''pw'')) = logged_in
   \<and> snd (snd (refresh_token (demo_world deny_server 1000) logged_in)) = logged_in
   \<and> fst (login (demo_world deny_server 1000) logged_in ''a@b.se'' ''pw'')
       = Inl (ClientResponseError 401 ''Login failed: denied'')
   \<and> fst (refresh_token (demo_world deny_server 1000) logged_in)
       = Inl (ClientResponseError 401 ''Token refresh failed: denied'')"
proof -
  let ?w = "demo_world deny_server 1000"
  have l: "fst (login ?w logged_in ''a@b.se'' ''pw'') = Inl (ClientResponseError 401 ''Login failed: denied'')"
    by (simp add: login_def send_def demo_world_def deny_server_def)
  have r: "fst (refresh_token ?w logged_in) = Inl (ClientResponseError 401 ''Token refresh failed: denied'')"
    by (simp add: refresh_token_def send_def demo_defs)
  have "login ?w logged_in ''a@b.se'' ''pw''
      = (Inl (ClientResponseError 401 ''Login failed: denied''),
         fst (snd (login ?w logged_in ''a@b.se'' ''pw'')), snd (snd (login ?w logged_in ''a@b.se'' ''pw'')))"
    using l by (metis prod.collapse)
  moreover have "refresh_token ?w logged_in
      = (Inl (ClientResponseError 401 ''Token refresh failed: denied''),
         fst (snd (refresh_token ?w logged_in)), snd (snd (refresh_token ?w logged_in)))"
    using r by (metis prod.collapse)
  ultimately show ?thesis
    using l r login_refresh_atomic [of ?w logged_in "''a@b.se''" "''pw''" "ClientResponseError 401 ''Login failed: denied''"
        "fst (snd (login ?w logged_in ''a@b.se'' ''pw''))" "snd (snd (login ?w logged_in ''a@b.se'' ''pw''))"]
      login_refresh_atomic [of ?w logged_in "''a@b.se''" "''pw''" "ClientResponseError 401 ''Token refresh failed: denied''"
        "fst (snd (refresh_token ?w logged_in))" "snd (snd (refresh_token ?w logged_in))"]
    by simp
qed

text \<open>
  C6, as the code has it. A \<open>UserClient\<close> with a truthy id cached sends no user-id
  lookup and keeps its id. With none cached (\<open>None\<close>, or a falsy id such as the empty
  string or 0) a call sends at most one lookup, \<open>GET auth/auth/user\<close>, exactly one when
  it returns, and stores the id the lookup gave. A call that returns has sent, last, a
  \<open>GET\<close> to \<open>service/users/user/{userId}/{data_type}/{0|1}\<close>, with 1 for bypass and 0
  otherwise; \<open>get_structure\<close> and \<open>get_information\<close> are the data types
  \<open>structure\<close> and \<open>information\<close>.
\<close>

theorem user_id_lookup_memoized:
  assumes "get_user_data w s u data_type bypass = (res, w', s', u')"
  shows
   "(truthy (self_user_id u) \<longrightarrow> u' = u \<and> filter (is_user_lookup s) (issued w w') = [])
    \<and> (\<not> truthy (self_user_id u) \<longrightarrow>
          length (filter (is_user_lookup s) (issued w w')) \<le> 1
          \<and> ((\<exists>e. fst (get_user_id w s) = Inl e \<and> res = Inl e \<and> u' = u)
             \<or> (\<exists>uid. fst (get_user_id w s) = Inr uid \<and> u' = u\<lparr>self_user_id := uid\<rparr>)))
    \<and> (\<forall>r. res = Inr r \<longrightarrow>
          (\<not> truthy (self_user_id u) \<longrightarrow> length (filter (is_user_lookup s) (issued w w')) = 1)
          \<and> issued w w' \<noteq> [] \<and> meth (last (issued w w')) = ''GET''
          \<and> url (last (issued w w')) =
               self_base_url s @ ''/service/users/user/'' @ py_str (self_user_id u') @ ''/''
                 @ data_type @ ''/'' @ (if bypass then ''1'' else ''0''))
    \<and> get_structure w s u bypass = get_user_data w s u ''structure'' bypass
    \<and> get_information w s u bypass = get_user_data w s u ''information'' bypass"
proof (cases "truthy (self_user_id u)")
  case True
  obtain r2 w2 s2 where req: "request w s ''GET'' (user_endpoint (self_user_id u) data_type bypass) Map.empty = (r2, w2, s2)"
    by (metis prod_cases3)
  with assms True have eq: "res = r2" "w' = w2" "s' = s2" "u' = u"
    by (simp_all add: get_user_data_def)
  from data_request_shape [OF req refl] obtain cs where
    cs: "sent w2 = sent w @ cs" "filter (is_user_lookup s) cs = []"
      "(\<exists>v. r2 = Inr v) \<longrightarrow> cs \<noteq> [] \<and> meth (last cs) = ''GET''
         \<and> url (last cs) = self_base_url s @ ''/'' @ user_endpoint (self_user_id u) data_type bypass"
    by blast
  from cs(1) eq have "issued w w' = cs"
    by (simp add: issued_append)
  with cs eq True show ?thesis
    by (auto simp: user_endpoint_def bypass_segment_eq get_structure_def get_information_def)
next
  case False
  obtain r1 w1 s1 where gid: "get_user_id w s = (r1, w1, s1)"
    by (metis prod_cases3)
  from get_user_id_shape [OF gid] obtain pre post where
    sh: "sent w1 = sent w @ pre @ post" "filter (is_user_lookup s) pre = []"
      "post = [] \<or> (\<exists>c. post = [c] \<and> is_user_lookup s c)"
      "(\<exists>v. r1 = Inr v) \<longrightarrow> post \<noteq> []" "self_base_url s1 = self_base_url s"
    by blast
  show ?thesis
  proof (cases r1)
    case (Inl e)
    with assms False gid have eq: "res = Inl e" "w' = w1" "u' = u"
      by (simp_all add: get_user_data_def)
    from sh(1) eq have "issued w w' = pre @ post"
      by (simp add: issued_append)
    with sh eq Inl gid False show ?thesis
      by (auto simp: get_structure_def get_information_def)
  next
    case (Inr uid)
    obtain r2 w2 s2 where req: "request w1 s1 ''GET'' (user_endpoint uid data_type bypass) Map.empty = (r2, w2, s2)"
      by (metis prod_cases3)
    with assms False gid Inr have eq: "res = r2" "w' = w2" "s' = s2" "u' = u\<lparr>self_user_id := uid\<rparr>"
      by (simp_all add: get_user_data_def)
    from data_request_shape [OF req sh(5)] obtain cs where
      cs: "sent w2 = sent w1 @ cs" "filter (is_user_lookup s) cs = []"
        "(\<exists>v. r2 = Inr v) \<longrightarrow> cs \<noteq> [] \<and> meth (last cs) = ''GET''
           \<and> url (last cs) = self_base_url s @ ''/'' @ user_endpoint uid data_type bypass"
      by blast
    from sh(1) cs(1) eq have iss: "issued w w' = pre @ post @ cs"
      by (simp add: issued_append)
    from sh(3,4) Inr obtain c where post: "post = [c]" "is_user_lookup s c"
      by auto
    from iss sh(2) cs(2) post have cnt: "length (filter (is_user_lookup s) (issued w w')) = 1"
      by simp
    from cs(3) iss eq have lastc: "\<forall>r. res = Inr r \<longrightarrow> issued w w' \<noteq> [] \<and> meth (last (issued w w')) = ''GET''
          \<and> url (last (issued w w')) = self_base_url s @ ''/'' @ user_endpoint uid data_type bypass"
      by auto
    from cnt lastc eq Inr gid False show ?thesis
      by (auto simp: user_endpoint_def bypass_segment_eq get_structure_def get_information_def)
  qed
qed

theorem user_id_lookup_memoized_witness:
  "fst (first_fetch (PStr ''u42'')) = Inr Map.empty
   \<and> length (filter (is_user_lookup logged_in)
        (issued (demo_world (demo_server (PStr ''u42'')) 1000) (fst (snd (first_fetch (PStr ''u42'')))))) = 1
   \<and> url (last (issued (demo_world (demo_server (PStr ''u42'')) 1000) (fst (snd (first_fetch (PStr ''u42''))))))
        = ''https://link2.lk.nu/service/users/user/u42/structure/0''
   \<and> fst (second_fetch (PStr ''u42'')) = Inr Map.empty
   \<and> filter (is_user_lookup logged_in)
        (issued (fst (snd (first_fetch (PStr ''u42'')))) (fst (snd (second_fetch (PStr ''u42''))))) = []
   \<and> url (last (issued (fst (snd (first_fetch (PStr ''u42'')))) (fst (snd (second_fetch (PStr ''u42''))))))
        = ''https://link2.lk.nu/service/users/user/u42/structure/1''"
proof -
  let ?w = "demo_world (demo_server (PStr ''u42'')) 1000"
  let ?a = "first_fetch (PStr ''u42'')"
  let ?b = "second_fetch (PStr ''u42'')"
  have a: "get_user_data ?w logged_in user_client_init ''structure'' False
      = (fst ?a, fst (snd ?a), fst (snd (snd ?a)), snd (snd (snd ?a)))"
    by (simp add: first_fetch_def get_structure_def)
  have b: "get_user_data (fst (snd ?a)) (fst (snd (snd ?a))) (snd (snd (snd ?a))) ''structure'' True
      = (fst ?b, fst (snd ?b), fst (snd (snd ?b)), snd (snd (snd ?b)))"
    by (simp add: second_fetch_def get_structure_def)
  have fresh: "\<not> truthy (self_user_id user_client_init)"
    by (simp add: user_client_init_def)
  have ra: "fst ?a = Inr Map.empty" and ua: "snd (snd (snd ?a)) = \<lparr>self_user_id = PStr ''u42''\<rparr>"
    and sa: "fst (snd (snd ?a)) = logged_in"
    by (simp_all add: first_fetch_value)
  have rb: "fst ?b = Inr Map.empty"
    by (simp add: second_fetch_cached)
  have base: "self_base_url logged_in = ''https://link2.lk.nu''"
    by (simp add: demo_defs)
  show ?thesis
    using user_id_lookup_memoized [OF a] user_id_lookup_memoized [OF b] fresh ra ua sa rb base
    by simp
qed

text \<open>
  C6 as stated fails when the lookup returns a falsy id: at a server that names the user
  by the empty string, both calls return, the first stores the empty string, and the
  second call on the same instance sends the lookup again.
\<close>

theorem falsy_user_id_looked_up_again:
  "fst (first_fetch (PStr [])) = Inr Map.empty
   \<and> self_user_id (snd (snd (snd (first_fetch (PStr []))))) = PStr []
   \<and> fst (second_fetch (PStr [])) = Inr Map.empty
   \<and> filter (is_user_lookup logged_in)
        (issued (fst (snd (first_fetch (PStr [])))) (fst (snd (second_fetch (PStr [])))))
      = [request_call logged_in ''GET'' ''/auth/auth/user'' Map.empty Map.empty]"
  by (simp add: first_fetch_value second_fetch_blank issued_def is_user_lookup_def
      request_call_def lstrip_slash_def user_endpoint_def demo_defs)



text \<open>
  C8. \<open>is_current_token_valid\<close> never raises. With no access token stored it returns
  false and sends nothing; otherwise it sends one probe carrying the bearer token and
  returns true exactly when the probe's status is 200.
\<close>

theorem is_current_token_valid_probe:
  "(\<exists>b. fst (is_current_token_valid w s) = Inr b)
   \<and> (\<not> truthy (self_access_token s) \<longrightarrow> is_current_token_valid w s = (Inr False, w))
   \<and> (truthy (self_access_token s) \<longrightarrow>
        is_current_token_valid w s =
          (Inr (resp_status (server w (sent w) (validate_call s)) = 200),
           w\<lparr>sent := sent w @ [validate_call s]\<rparr>))
   \<and> authorization (validate_call s) = Some (PStr (''Bearer '' @ py_str (self_access_token s)))"
  by (auto simp: is_current_token_valid_def send_def validate_call_def authorization_def
      headers_of_def bearer_def)

theorem is_current_token_valid_probe_witness:
  "is_current_token_valid (demo_world deny_server 1000) (init demo_base)
      = (Inr False, demo_world deny_server 1000)
   \<and> fst (is_current_token_valid (demo_world deny_server 1000) logged_in) = Inr False
   \<and> fst (is_current_token_valid (demo_world (demo_server PNone) 1000) logged_in) = Inr True"
  using is_current_token_valid_probe [of "demo_world deny_server 1000" "init demo_base"]
    is_current_token_valid_probe [of "demo_world deny_server 1000" logged_in]
    is_current_token_valid_probe [of "demo_world (demo_server PNone) 1000" logged_in]
  by (simp add: demo_defs validate_call_def)

text \<open>
  C9. When the token check succeeds, \<open>set_valve_state\<close> sends, last, a \<open>POST\<close> to
  \<open>control/cubic/secure/{serial_number}/valve/open\<close> for true and \<open>.../valve/close\<close>
  for false, with the bearer token, and nothing else but a refresh call;
  \<open>open_valve\<close> is \<open>set_valve_state\<close> with true and \<open>close_valve\<close> with false.
\<close>

theorem set_valve_state_posts:
  assumes "set_valve_state w s c state = (res, w', s')"
      and "fst (ensure_valid_access_token w s False) = Inr ()"
  shows "issued w w' \<noteq> [] \<and> meth (last (issued w w')) = ''POST''
       \<and> url (last (issued w w')) =
           self_base_url s @ ''/control/cubic/secure/'' @ access_serial_number c @ ''/valve/''
             @ (if state then ''open'' else ''close'')
       \<and> authorization (last (issued w w')) = Some (PStr (''Bearer '' @ py_str (self_access_token s')))
       \<and> set (issued w w') \<subseteq> {refresh_call s, last (issued w w')}
       \<and> open_valve w s c = set_valve_state w s c True
       \<and> close_valve w s c = set_valve_state w s c False"
  using request_last_call_fields [OF assms(1) [unfolded set_valve_state_def] assms(2) headers_copy_empty]
  by (simp add: lstrip_slash_def open_valve_def close_valve_def)

theorem set_valve_state_posts_witness:
  "url (last (issued (demo_world (demo_server PNone) 1000)
        (fst (snd (open_valve (demo_world (demo_server PNone) 1000) logged_in demo_valve)))))
     = ''https://link2.lk.nu/control/cubic/secure/SN1/valve/open''
   \<and> url (last (issued (demo_world (demo_server PNone) 1000)
        (fst (snd (close_valve (demo_world (demo_server PNone) 1000) logged_in demo_valve)))))
     = ''https://link2.lk.nu/control/cubic/secure/SN1/valve/close''
   \<and> meth (last (issued (demo_world (demo_server PNone) 1000)
        (fst (snd (open_valve (demo_world (demo_server PNone) 1000) logged_in demo_valve))))) = ''POST''"
proof -
  let ?w = "demo_world (demo_server PNone) 1000"
  let ?o = "set_valve_state ?w logged_in demo_valve True"
  let ?c = "set_valve_state ?w logged_in demo_valve False"
  have o: "?o = (fst ?o, fst (snd ?o), snd (snd ?o))" and c: "?c = (fst ?c, fst (snd ?c), snd (snd ?c))"
    by simp_all
  have ok: "fst (ensure_valid_access_token ?w logged_in False) = Inr ()"
    by (simp add: demo_token_valid)
  have base: "self_base_url logged_in = ''https://link2.lk.nu''"
    by (simp add: demo_defs)
  have sn: "access_serial_number demo_valve = ''SN1''"
    by (simp add: demo_valve_def)
  show ?thesis
    using set_valve_state_posts [OF o ok] set_valve_state_posts [OF c ok] base sn
    by simp
qed

text \<open>
  C10. When the token check succeeds, \<open>get_measurement\<close> and \<open>get_configuration\<close> send,
  last, a \<open>GET\<close> to \<open>service/cubic/secure/{serial_number}/{measurement|configuration}/{0|1}\<close>,
  with 1 for bypass and 0 otherwise, so the two bypass values give different URLs. The
  client is its serial number only and is not changed by a call: the call is sent
  whatever was sent before, so nothing is cached.
\<close>

theorem cubic_client_gets:
  assumes "get_measurement w s c bypass = (res, w', s')"
      and "get_configuration w s c bypass = (res2, w2, s2)"
      and "fst (ensure_valid_access_token w s False) = Inr ()"
  shows "issued w w' \<noteq> [] \<and> meth (last (issued w w')) = ''GET''
       \<and> url (last (issued w w')) =
           self_base_url s @ ''/service/cubic/secure/'' @ cubic_serial_number c @ ''/measurement/''
             @ (if bypass then ''1'' else ''0'')
       \<and> issued w w2 \<noteq> [] \<and> meth (last (issued w w2)) = ''GET''
       \<and> url (last (issued w w2)) =
           self_base_url s @ ''/service/cubic/secure/'' @ cubic_serial_number c @ ''/configuration/''
             @ (if bypass then ''1'' else ''0'')
       \<and> set (issued w w') \<subseteq> {refresh_call s, last (issued w w')}
       \<and> set (issued w w2) \<subseteq> {refresh_call s, last (issued w w2)}
       \<and> self_base_url s @ ''/service/cubic/secure/'' @ cubic_serial_number c @ ''/measurement/1''
           \<noteq> self_base_url s @ ''/service/cubic/secure/'' @ cubic_serial_number c @ ''/measurement/0''
       \<and> self_base_url s @ ''/service/cubic/secure/'' @ cubic_serial_number c @ ''/configuration/1''
           \<noteq> self_base_url s @ ''/service/cubic/secure/'' @ cubic_serial_number c @ ''/configuration/0''"
  using request_last_call_fields [OF assms(1) [unfolded get_measurement_def] assms(3) headers_copy_empty]
    request_last_call_fields [OF assms(2) [unfolded get_configuration_def] assms(3) headers_copy_empty]
  by (simp add: lstrip_slash_def bypass_segment_eq)

theorem cubic_client_gets_witness:
  "url (last (issued (demo_world (demo_server PNone) 1000) (fst (snd measured_once))))
     = ''https://link2.lk.nu/service/cubic/secure/SN1/measurement/1''
   \<and> url (last (issued (fst (snd measured_once)) (fst (snd measured_twice))))
     = ''https://link2.lk.nu/service/cubic/secure/SN1/measurement/1''
   \<and> issued (fst (snd measured_once)) (fst (snd measured_twice)) \<noteq> []
   \<and> url (last (issued (demo_world (demo_server PNone) 1000)
        (fst (snd (get_measurement (demo_world (demo_server PNone) 1000) logged_in demo_cubic False)))))
     = ''https://link2.lk.nu/service/cubic/secure/SN1/measurement/0''
   \<and> url (last (issued (demo_world (demo_server PNone) 1000)
        (fst (snd (get_configuration (demo_world (demo_server PNone) 1000) logged_in demo_cubic False)))))
     = ''https://link2.lk.nu/service/cubic/secure/SN1/configuration/0''"
proof -
  let ?w = "demo_world (demo_server PNone) 1000"
  let ?w1 = "fst (snd measured_once)"
  let ?m0 = "get_measurement ?w logged_in demo_cubic False"
  let ?c0 = "get_configuration ?w logged_in demo_cubic False"
  let ?c1 = "get_configuration ?w logged_in demo_cubic True"
  let ?d1 = "get_configuration ?w1 logged_in demo_cubic True"
  have m1: "get_measurement ?w logged_in demo_cubic True
      = (fst measured_once, fst (snd measured_once), snd (snd measured_once))"
    by (simp add: measured_once_def)
  have m2: "get_measurement ?w1 logged_in demo_cubic True
      = (fst measured_twice, fst (snd measured_twice), snd (snd measured_twice))"
    by (simp add: measured_twice_def measured_once_value)
  have m0: "?m0 = (fst ?m0, fst (snd ?m0), snd (snd ?m0))"
    and c0: "?c0 = (fst ?c0, fst (snd ?c0), snd (snd ?c0))"
    and c1: "?c1 = (fst ?c1, fst (snd ?c1), snd (snd ?c1))"
    and d1: "?d1 = (fst ?d1, fst (snd ?d1), snd (snd ?d1))"
    by simp_all
  have ok: "fst (ensure_valid_access_token ?w logged_in False) = Inr ()"
    by (simp add: demo_token_valid)
  have ok1: "fst (ensure_valid_access_token ?w1 logged_in False) = Inr ()"
    by (simp add: measured_once_value ensure_valid_access_token_def is_access_token_expired_def
        time_time_def demo_defs)
  have base: "self_base_url logged_in = ''https://link2.lk.nu''"
    by (simp add: demo_defs)
  have sn: "cubic_serial_number demo_cubic = ''SN1''"
    by (simp add: demo_cubic_def)
  show ?thesis
    using cubic_client_gets [OF m1 c1 ok] cubic_client_gets [OF m2 d1 ok1]
      cubic_client_gets [OF m0 c0 ok] base sn
    by simp
qed

end
